theory Spec2Isabelle
  imports Main "HOL-Library.Word"
begin

unbundle bit_operations_syntax

section \<open>Data model of SceneCaptureCamera.cpp\<close>

text \<open>
  Machine types. A C++ \<open>float\<close> is only ever stored, copied and reinterpreted as bytes
  by this file, never computed with, so it is carried as its IEEE-754 binary32 bit
  pattern: \<open>1.0f\<close> is \<open>0x3F800000\<close>, \<open>90.0f\<close> is \<open>0x42B40000\<close>.
\<close>

type_synonym uint8 = "8 word"
type_synonym uint32 = "32 word"
type_synonym float32 = "32 word"

text \<open>
  The enumeration \<open>EPostProcessEffect\<close>. Its enumerator for "no effect" is called
  \<open>None\<close> in the source; it carries a suffix here because \<open>None\<close> is the constructor of
  \<open>option\<close>.
\<close>

datatype EPostProcessEffect = None_PPE | SceneFinal | Depth | SemanticSegmentation

datatype EAutoExposureMethod = AEM_Histogram | AEM_Basic

datatype ESceneCaptureSource = SCS_SceneColorHDR | SCS_FinalColorLDR

datatype EPixelFormat = PF_B8G8R8A8

text \<open>The post-processing materials the constructor loads, named after their assets.\<close>

datatype UMaterial = DepthEffectMaterial_GLSL | DepthEffectMaterial | GTMaterial

datatype platform = PLATFORM_LINUX | PLATFORM_WINDOWS

text \<open>A pixel, channels in the order of the render-target format \<open>PF_B8G8R8A8\<close>.\<close>

datatype FColor = FColor uint8 uint8 uint8 uint8

text \<open>
  What can go wrong in this file: \<open>check(p != nullptr)\<close> aborts (\<open>Check_failed\<close>), and
  following a null pointer without a check is undefined behaviour, modelled as a
  failure of its own (\<open>Null_dereference\<close>).
\<close>

datatype error = Check_failed | Null_dereference

text \<open>The camera description consumed by \<open>Set\<close>.\<close>

record FCameraPostProcessParameters =
  AutoExposureMethod :: EAutoExposureMethod
  AutoExposureMinBrightness :: float32
  AutoExposureMaxBrightness :: float32
  AutoExposureBias :: float32

record UCameraDescription =
  bOverrideCameraPostProcessParameters :: bool
  CameraPostProcessParameters :: FCameraPostProcessParameters
  ImageSizeX :: uint32
  ImageSizeY :: uint32
  PostProcessEffect :: EPostProcessEffect
  FOVAngle :: float32

text \<open>
  The engine objects the camera owns, reduced to the members this file reads or writes.
  \<open>Blendables\<close> lists the \<open>AddBlendable\<close> calls made on the settings, in order, each with
  its weight. \<open>FEngineShowFlags\<close> is a struct of named one-bit flags, here a function
  from the flag's name to its value; \<open>Set<Name>(v)\<close> writes one of them.
\<close>

record FPostProcessSettings =
  bOverride_AutoExposureMethod :: bool
  AutoExposureMethod :: EAutoExposureMethod
  bOverride_AutoExposureMinBrightness :: bool
  AutoExposureMinBrightness :: float32
  bOverride_AutoExposureMaxBrightness :: bool
  AutoExposureMaxBrightness :: float32
  bOverride_AutoExposureBias :: bool
  AutoExposureBias :: float32
  Blendables :: "(UMaterial \<times> float32) list"

type_synonym FEngineShowFlags = "string \<Rightarrow> bool"

record USceneCaptureComponent2D =
  FOVAngle :: float32
  PostProcessSettings :: FPostProcessSettings
  ShowFlags :: FEngineShowFlags
  CaptureSource :: ESceneCaptureSource
  TextureTarget :: "string option"
  bIsActive :: bool

text \<open>
  The render target: its object name (the camera's component points to it through
  \<open>TextureTarget\<close>), its gamma, and the arguments of the last \<open>InitCustomFormat\<close> call.
\<close>

record UTextureRenderTarget2D =
  Name :: string
  TargetGamma :: float32
  CustomFormat :: "(uint32 \<times> uint32 \<times> EPixelFormat \<times> bool) option"

text \<open>
  The render-target resource belongs to the engine. Of it the camera sees only what
  \<open>ReadPixels\<close> returns on this tick and the pixels it has written by then.
\<close>

record FTextureRenderTargetResource =
  ReadPixels_return :: bool
  ReadPixels_OutImageData :: "FColor list"

text \<open>The camera actor. A pointer member is an \<open>option\<close>: \<open>None\<close> is \<open>nullptr\<close>.\<close>

record ASceneCaptureCamera =
  SizeX :: uint32
  SizeY :: uint32
  PostProcessEffect :: EPostProcessEffect
  CaptureComponent2D :: "USceneCaptureComponent2D option"
  CaptureRenderTarget :: "UTextureRenderTarget2D option"
  PostProcessDepth :: UMaterial
  PostProcessSemanticSegmentation :: UMaterial

text \<open>The header struct local to \<open>Tick\<close>, and the view handed to \<open>WriteSensorData\<close>.\<close>

record ImageHeader =
  Width :: uint32
  Height :: uint32
  Type :: uint32
  FOV :: float32

record FSensorDataView =
  SensorId :: uint32
  Header :: "uint8 list"
  Data :: "FColor list"

section \<open>The constructor\<close>

definition DEPTH_MAT_PATH :: "platform \<Rightarrow> UMaterial" where
  "DEPTH_MAT_PATH p =
     (case p of PLATFORM_LINUX \<Rightarrow> DepthEffectMaterial_GLSL
              | PLATFORM_WINDOWS \<Rightarrow> DepthEffectMaterial)"

definition SEMANTIC_SEGMENTATION_MAT_PATH :: UMaterial where
  "SEMANTIC_SEGMENTATION_MAT_PATH = GTMaterial"

text \<open>
  The constructor sets the size to 720 x 512 and the effect to \<open>SceneFinal\<close>, creates the
  render target \<open>CaptureRenderTarget0\<close> and the capture component, and loads the two
  materials. The engine's freshly created subobjects are arguments: \<open>comp0\<close> is the
  default capture component, \<open>rt0\<close> the default render target.
\<close>

definition ASceneCaptureCamera_ctor ::
  "platform \<Rightarrow> USceneCaptureComponent2D \<Rightarrow> UTextureRenderTarget2D \<Rightarrow> ASceneCaptureCamera" where
  "ASceneCaptureCamera_ctor p comp0 rt0 =
     \<lparr>SizeX = 720, SizeY = 512, PostProcessEffect = SceneFinal,
      CaptureComponent2D = Some comp0,
      CaptureRenderTarget = Some (rt0\<lparr>Name := ''CaptureRenderTarget0''\<rparr>),
      PostProcessDepth = DEPTH_MAT_PATH p,
      PostProcessSemanticSegmentation = SEMANTIC_SEGMENTATION_MAT_PATH\<rparr>"

section \<open>Tick: read back, build the header, publish\<close>

text \<open>
  \<open>ReadPixels\<close> asks the render target for its resource; \<open>RTResource\<close> is what
  \<open>GameThread_GetRenderTargetResource\<close> returns on this tick. With no resource it logs
  and returns false, leaving the bitmap as it came in (empty); otherwise it returns what
  the engine's read returns.
\<close>

definition ReadPixels ::
  "FTextureRenderTargetResource option \<Rightarrow> ASceneCaptureCamera \<Rightarrow> error + (bool \<times> FColor list)" where
  "ReadPixels RTResource c =
     (case CaptureRenderTarget c of
        None \<Rightarrow> Inl Null_dereference
      | Some rt \<Rightarrow>
          (case RTResource of
             None \<Rightarrow> Inr (False, [])
           | Some r \<Rightarrow> Inr (ReadPixels_return r, ReadPixels_OutImageData r)))"

text \<open>
  The header is published as the bytes of the struct
  (\<open>reinterpret_cast<const void *>(&ImageHeader)\<close>, \<open>sizeof(ImageHeader)\<close>). The
  \<open>static_assert\<close> pins the struct to four 4-byte members without padding; both
  platforms the file compiles for store a 32-bit value lowest byte first.
\<close>

definition bytes_of_uint32 :: "uint32 \<Rightarrow> uint8 list" where
  "bytes_of_uint32 w =
     [ucast w, ucast (drop_bit 8 w), ucast (drop_bit 16 w), ucast (drop_bit 24 w)]"

definition bytes_of_ImageHeader :: "ImageHeader \<Rightarrow> uint8 list" where
  "bytes_of_ImageHeader h =
     bytes_of_uint32 (Width h) @ bytes_of_uint32 (Height h) @
     bytes_of_uint32 (Type h) @ bytes_of_uint32 (FOV h)"

text \<open>
  \<open>Tick\<close> returns nothing; its effect is the calls it makes to \<open>WriteSensorData\<close>, which
  the model returns as a list. \<open>ToUInt\<close> (the enumeration's conversion to \<open>uint32\<close>) and
  \<open>GetId\<close> (the sensor's id, kept by the base class) are declared outside this file and
  are arguments. \<open>DeltaSeconds\<close> only goes to \<open>Super::Tick\<close> and is left out. The header
  is built, from the component's field of view, before the pixels are read.
\<close>

definition Tick ::
  "(EPostProcessEffect \<Rightarrow> uint32) \<Rightarrow> uint32 \<Rightarrow> FTextureRenderTargetResource option \<Rightarrow>
   ASceneCaptureCamera \<Rightarrow> error + FSensorDataView list" where
  "Tick ToUInt GetId RTResource c =
     (case CaptureComponent2D c of
        None \<Rightarrow> Inl Null_dereference
      | Some capture \<Rightarrow>
          (let hdr = \<lparr>Width = SizeX c, Height = SizeY c,
                      Type = ToUInt (ASceneCaptureCamera.PostProcessEffect c),
                      FOV = USceneCaptureComponent2D.FOVAngle capture\<rparr>
           in case ReadPixels RTResource c of
                Inl e \<Rightarrow> Inl e
              | Inr (ok, BitMap) \<Rightarrow>
                  if ok
                  then Inr [\<lparr>SensorId = GetId, Header = bytes_of_ImageHeader hdr, Data = BitMap\<rparr>]
                  else Inr []))"

text \<open>
  The specification's outcome of a tick, read off the calls made: \<open>Published\<close> when
  \<open>WriteSensorData\<close> was called, \<open>Skipped\<close> when it was not.
\<close>

datatype Outcome = Published | Skipped

definition Outcome_of :: "FSensorDataView list \<Rightarrow> Outcome" where
  "Outcome_of written = (if written = [] then Skipped else Published)"

text \<open>Reading the 32-bit slot number \<open>i\<close> of a byte buffer, lowest byte first.\<close>

definition uint32_of_bytes :: "uint8 list \<Rightarrow> uint32" where
  "uint32_of_bytes bs =
     (case bs of
        [b0, b1, b2, b3] \<Rightarrow>
          ucast b0 OR push_bit 8 (ucast b1) OR push_bit 16 (ucast b2) OR push_bit 24 (ucast b3)
      | _ \<Rightarrow> 0)"

definition slot :: "nat \<Rightarrow> uint8 list \<Rightarrow> uint32" where
  "slot i bs = uint32_of_bytes (take 4 (drop (4 * i) bs))"

section \<open>Session start: BeginPlay and the show flags\<close>

definition SetShowFlag :: "string \<Rightarrow> bool \<Rightarrow> FEngineShowFlags \<Rightarrow> FEngineShowFlags" where
  "SetShowFlag flag v flags = flags(flag := v)"

text \<open>
  The flags \<open>RemoveShowFlags\<close> switches off, in the order of its calls; the lines the
  source has commented out are left out here as well.
\<close>

definition removed_show_flags :: "string list" where
  "removed_show_flags =
     [''AmbientOcclusion'', ''AntiAliasing'', ''AtmosphericFog'', ''Bloom'',
      ''CameraImperfections'', ''CameraInterpolation'', ''ColorGrading'', ''DepthOfField'',
      ''Diffuse'', ''DirectionalLights'', ''DirectLighting'', ''DynamicShadows'',
      ''EyeAdaptation'', ''Fog'', ''GlobalIllumination'', ''Grain'', ''HLODColoration'',
      ''HMDDistortion'', ''LensFlares'', ''LevelColoration'', ''LightComplexity'',
      ''LightFunctions'', ''LightInfluences'', ''Lighting'', ''LightMapDensity'',
      ''LightRadius'', ''LightShafts'', ''LODColoration'', ''MotionBlur'',
      ''OnScreenDebug'', ''Particles'', ''PointLights'', ''PropertyColoration'',
      ''Refraction'', ''SceneColorFringe'', ''ScreenSpaceAO'', ''ScreenSpaceReflections'',
      ''SkyLighting'', ''SpotLights'', ''StationaryLightOverlap'',
      ''SubsurfaceScattering'', ''Tonemapper'', ''VisualizeAdaptiveDOF'',
      ''VisualizeBloom'', ''VisualizeBuffer'', ''VisualizeDistanceFieldAO'',
      ''VisualizeDistanceFieldGI'', ''VisualizeDOF'', ''VisualizeHDR'',
      ''VisualizeLightCulling'', ''VisualizeLPV'', ''VisualizeMeshDistanceFields'',
      ''VisualizeMotionBlur'', ''VisualizeOutOfBoundsPixels'', ''VisualizeSenses'',
      ''VisualizeShadingModels'', ''VisualizeSSR'', ''VisualizeSSS'']"

definition RemoveShowFlags :: "FEngineShowFlags \<Rightarrow> FEngineShowFlags" where
  "RemoveShowFlags flags = fold (\<lambda>flag. SetShowFlag flag False) removed_show_flags flags"

definition AddBlendable ::
  "UMaterial \<Rightarrow> float32 \<Rightarrow> FPostProcessSettings \<Rightarrow> FPostProcessSettings" where
  "AddBlendable m weight pps = pps\<lparr>Blendables := Blendables pps @ [(m, weight)]\<rparr>"

text \<open>
  \<open>BeginPlay\<close>, statement by statement: initialise the render target, deactivate the
  component and point it to the target, choose the capture source, remove the show flags
  unless the effect is \<open>SceneFinal\<close>, blend the material of \<open>Depth\<close> or
  \<open>SemanticSegmentation\<close> at weight \<open>1.0f\<close>, and activate. \<open>UpdateContent\<close> changes
  nothing that is modelled.
\<close>

definition BeginPlay :: "ASceneCaptureCamera \<Rightarrow> error + ASceneCaptureCamera" where
  "BeginPlay c =
     (let effect = ASceneCaptureCamera.PostProcessEffect c;
          bRemovePostProcessing = (effect \<noteq> SceneFinal);
          bInForceLinearGamma = bRemovePostProcessing
      in case CaptureRenderTarget c of
           None \<Rightarrow> Inl Null_dereference
         | Some rt \<Rightarrow>
             (case CaptureComponent2D c of
                None \<Rightarrow> Inl Null_dereference
              | Some capture \<Rightarrow>
                  (let rt1 = rt\<lparr>CustomFormat :=
                               Some (SizeX c, SizeY c, PF_B8G8R8A8, bInForceLinearGamma)\<rparr>;
                       k1 = capture\<lparr>bIsActive := False\<rparr>;
                       k2 = k1\<lparr>TextureTarget := Some (Name rt1)\<rparr>;
                       k3 = (if effect \<noteq> None_PPE
                             then k2\<lparr>CaptureSource := SCS_FinalColorLDR\<rparr> else k2);
                       k4 = (if bRemovePostProcessing
                             then k3\<lparr>ShowFlags := RemoveShowFlags (ShowFlags k3)\<rparr> else k3);
                       k5 = (if effect = Depth
                             then k4\<lparr>PostProcessSettings :=
                                      AddBlendable (PostProcessDepth c) 0x3F800000
                                        (PostProcessSettings k4)\<rparr>
                             else if effect = SemanticSegmentation
                             then k4\<lparr>PostProcessSettings :=
                                      AddBlendable (PostProcessSemanticSegmentation c) 0x3F800000
                                        (PostProcessSettings k4)\<rparr>
                             else k4);
                       k6 = k5\<lparr>bIsActive := True\<rparr>
                   in Inr (c\<lparr>CaptureRenderTarget := Some rt1,
                              CaptureComponent2D := Some k6\<rparr>))))"

section \<open>Accessors and configuration\<close>

definition GetFOVAngle :: "ASceneCaptureCamera \<Rightarrow> error + float32" where
  "GetFOVAngle c =
     (case CaptureComponent2D c of
        None \<Rightarrow> Inl Check_failed
      | Some capture \<Rightarrow> Inr (USceneCaptureComponent2D.FOVAngle capture))"

definition SetImageSize :: "uint32 \<Rightarrow> uint32 \<Rightarrow> ASceneCaptureCamera \<Rightarrow> ASceneCaptureCamera" where
  "SetImageSize otherSizeX otherSizeY c = c\<lparr>SizeX := otherSizeX, SizeY := otherSizeY\<rparr>"

text \<open>
  \<open>SetPostProcessEffect\<close> stores the effect, then takes the component's settings without a
  check, and clears the four auto-exposure override flags unless the effect is
  \<open>SceneFinal\<close>.
\<close>

definition SetPostProcessEffect ::
  "EPostProcessEffect \<Rightarrow> ASceneCaptureCamera \<Rightarrow> error + ASceneCaptureCamera" where
  "SetPostProcessEffect otherPostProcessEffect c =
     (let c1 = c\<lparr>ASceneCaptureCamera.PostProcessEffect := otherPostProcessEffect\<rparr>
      in case CaptureComponent2D c1 of
           None \<Rightarrow> Inl Null_dereference
         | Some capture \<Rightarrow>
             if ASceneCaptureCamera.PostProcessEffect c1 \<noteq> SceneFinal
             then Inr (c1\<lparr>CaptureComponent2D := Some (capture\<lparr>PostProcessSettings :=
                         (PostProcessSettings capture)
                           \<lparr>bOverride_AutoExposureMethod := False,
                            bOverride_AutoExposureMinBrightness := False,
                            bOverride_AutoExposureMaxBrightness := False,
                            bOverride_AutoExposureBias := False\<rparr>\<rparr>)\<rparr>)
             else Inr c1)"

definition SetFOVAngle :: "float32 \<Rightarrow> ASceneCaptureCamera \<Rightarrow> error + ASceneCaptureCamera" where
  "SetFOVAngle angle c =
     (case CaptureComponent2D c of
        None \<Rightarrow> Inl Check_failed
      | Some capture \<Rightarrow>
          Inr (c\<lparr>CaptureComponent2D :=
                   Some (capture\<lparr>USceneCaptureComponent2D.FOVAngle := angle\<rparr>)\<rparr>))"

definition SetTargetGamma :: "float32 \<Rightarrow> ASceneCaptureCamera \<Rightarrow> error + ASceneCaptureCamera" where
  "SetTargetGamma gamma c =
     (case CaptureRenderTarget c of
        None \<Rightarrow> Inl Check_failed
      | Some rt \<Rightarrow> Inr (c\<lparr>CaptureRenderTarget := Some (rt\<lparr>TargetGamma := gamma\<rparr>)\<rparr>))"

text \<open>
  The override block of \<open>Set\<close>: when the description asks for it, the four override flags
  are switched on and the four values copied; otherwise the settings are not touched.
\<close>

definition Set_override :: "UCameraDescription \<Rightarrow> ASceneCaptureCamera \<Rightarrow> error + ASceneCaptureCamera" where
  "Set_override d c =
     (if bOverrideCameraPostProcessParameters d
      then (case CaptureComponent2D c of
              None \<Rightarrow> Inl Null_dereference
            | Some capture \<Rightarrow>
                (let Override = CameraPostProcessParameters d
                 in Inr (c\<lparr>CaptureComponent2D := Some (capture\<lparr>PostProcessSettings :=
                      (PostProcessSettings capture)
                        \<lparr>bOverride_AutoExposureMethod := True,
                         AutoExposureMethod :=
                           FCameraPostProcessParameters.AutoExposureMethod Override,
                         bOverride_AutoExposureMinBrightness := True,
                         AutoExposureMinBrightness :=
                           FCameraPostProcessParameters.AutoExposureMinBrightness Override,
                         bOverride_AutoExposureMaxBrightness := True,
                         AutoExposureMaxBrightness :=
                           FCameraPostProcessParameters.AutoExposureMaxBrightness Override,
                         bOverride_AutoExposureBias := True,
                         AutoExposureBias :=
                           FCameraPostProcessParameters.AutoExposureBias Override\<rparr>\<rparr>)\<rparr>)))
      else Inr c)"

text \<open>
  \<open>Set\<close>: the override block, then the image size, then the effect, then the field of
  view. \<open>Super::Set\<close> writes base-class members only, none of which is modelled.
\<close>

definition Set :: "UCameraDescription \<Rightarrow> ASceneCaptureCamera \<Rightarrow> error + ASceneCaptureCamera" where
  "Set d c =
     (case Set_override d c of
        Inl e \<Rightarrow> Inl e
      | Inr c1 \<Rightarrow>
          (case SetPostProcessEffect (UCameraDescription.PostProcessEffect d)
                  (SetImageSize (ImageSizeX d) (ImageSizeY d) c1) of
             Inl e \<Rightarrow> Inl e
           | Inr c2 \<Rightarrow> SetFOVAngle (UCameraDescription.FOVAngle d) c2))"

text \<open>The four auto-exposure override flags of a camera, when its component exists.\<close>

definition override_flags :: "ASceneCaptureCamera \<Rightarrow> (bool \<times> bool \<times> bool \<times> bool) option" where
  "override_flags c =
     map_option
       (\<lambda>capture. (bOverride_AutoExposureMethod (PostProcessSettings capture),
                   bOverride_AutoExposureMinBrightness (PostProcessSettings capture),
                   bOverride_AutoExposureMaxBrightness (PostProcessSettings capture),
                   bOverride_AutoExposureBias (PostProcessSettings capture)))
       (CaptureComponent2D c)"

section \<open>The consumer's side of the header\<close>

text \<open>
  Modelled from the spec: the decoder of the frame header is not in this file (the header
  leaves through \<open>WriteSensorData\<close> and is read by the consumers of the sensor data). The
  specification fixes the wire format as 16 bytes, four little-endian unsigned 32-bit
  fields in the order width, height, post-process code, field-of-view bits; a buffer of
  any other length is not a header.
\<close>

definition decode_header :: "uint8 list \<Rightarrow> ImageHeader option" where
  "decode_header bs =
     (if length bs = 16
      then Some \<lparr>Width = slot 0 bs, Height = slot 1 bs, Type = slot 2 bs, FOV = slot 3 bs\<rparr>
      else None)"

text \<open>
  Modelled from the spec: \<open>PostProcessEffect::ToUInt\<close> is declared with the enumeration,
  outside this file. The specification's table of codes is \<open>SceneFinal = 0\<close>,
  \<open>Depth = 1\<close>, \<open>SemanticSegmentation = 2\<close>, \<open>None = 3\<close>. The theorems below hold for any
  conversion; this one serves the concrete examples.
\<close>

definition ToUInt_table :: "EPostProcessEffect \<Rightarrow> uint32" where
  "ToUInt_table e =
     (case e of SceneFinal \<Rightarrow> 0 | Depth \<Rightarrow> 1 | SemanticSegmentation \<Rightarrow> 2 | None_PPE \<Rightarrow> 3)"

section \<open>Concrete cameras for the examples\<close>

text \<open>
  A capture component and a render target as the engine may create them: field of view
  \<open>90.0f\<close>, no override, no blendable, every show flag on, no target yet; and the camera
  the constructor builds from them on Linux, on which \<open>BeginPlay\<close> has not run.
\<close>

definition component0 :: USceneCaptureComponent2D where
  "component0 =
     \<lparr>FOVAngle = 0x42B40000,
      PostProcessSettings =
        \<lparr>bOverride_AutoExposureMethod = False, AutoExposureMethod = AEM_Histogram,
         bOverride_AutoExposureMinBrightness = False, AutoExposureMinBrightness = 0,
         bOverride_AutoExposureMaxBrightness = False, AutoExposureMaxBrightness = 0,
         bOverride_AutoExposureBias = False, AutoExposureBias = 0,
         Blendables = []\<rparr>,
      ShowFlags = (\<lambda>flag. True),
      CaptureSource = SCS_SceneColorHDR,
      TextureTarget = None,
      bIsActive = True\<rparr>"

definition render_target0 :: UTextureRenderTarget2D where
  "render_target0 = \<lparr>Name = [], TargetGamma = 0, CustomFormat = None\<rparr>"

definition camera0 :: ASceneCaptureCamera where
  "camera0 = ASceneCaptureCamera_ctor PLATFORM_LINUX component0 render_target0"

text \<open>Reading one show flag of a camera's component.\<close>

definition show_flag_of :: "string \<Rightarrow> ASceneCaptureCamera \<Rightarrow> bool option" where
  "show_flag_of flag c = map_option (\<lambda>capture. ShowFlags capture flag) (CaptureComponent2D c)"

text \<open>
  Descriptions: 800 x 600 with depth; the scene-final image with the auto-exposure
  override (\<open>0x3CF5C28F\<close> is \<open>0.03f\<close>, \<open>0x40000000\<close> is \<open>2.0f\<close>); the same without the
  override; depth with the override requested; and a description with zero width, zero
  height and a field of view of \<open>0.0f\<close>.
\<close>

definition exposure0 :: FCameraPostProcessParameters where
  "exposure0 =
     \<lparr>FCameraPostProcessParameters.AutoExposureMethod = AEM_Basic,
      FCameraPostProcessParameters.AutoExposureMinBrightness = 0x3CF5C28F,
      FCameraPostProcessParameters.AutoExposureMaxBrightness = 0x40000000,
      FCameraPostProcessParameters.AutoExposureBias = 0\<rparr>"

definition description_depth :: UCameraDescription where
  "description_depth =
     \<lparr>bOverrideCameraPostProcessParameters = False, CameraPostProcessParameters = exposure0,
      ImageSizeX = 800, ImageSizeY = 600,
      UCameraDescription.PostProcessEffect = Depth,
      UCameraDescription.FOVAngle = 0x42B40000\<rparr>"

definition description_override :: UCameraDescription where
  "description_override =
     \<lparr>bOverrideCameraPostProcessParameters = True, CameraPostProcessParameters = exposure0,
      ImageSizeX = 800, ImageSizeY = 600,
      UCameraDescription.PostProcessEffect = SceneFinal,
      UCameraDescription.FOVAngle = 0x42B40000\<rparr>"

definition description_plain :: UCameraDescription where
  "description_plain =
     \<lparr>bOverrideCameraPostProcessParameters = False, CameraPostProcessParameters = exposure0,
      ImageSizeX = 800, ImageSizeY = 600,
      UCameraDescription.PostProcessEffect = SceneFinal,
      UCameraDescription.FOVAngle = 0x42B40000\<rparr>"

definition description_depth_override :: UCameraDescription where
  "description_depth_override =
     \<lparr>bOverrideCameraPostProcessParameters = True, CameraPostProcessParameters = exposure0,
      ImageSizeX = 800, ImageSizeY = 600,
      UCameraDescription.PostProcessEffect = Depth,
      UCameraDescription.FOVAngle = 0x42B40000\<rparr>"

definition description_zero :: UCameraDescription where
  "description_zero =
     \<lparr>bOverrideCameraPostProcessParameters = False, CameraPostProcessParameters = exposure0,
      ImageSizeX = 0, ImageSizeY = 0,
      UCameraDescription.PostProcessEffect = SceneFinal,
      UCameraDescription.FOVAngle = 0\<rparr>"

text \<open>The camera after \<open>Set\<close> with the overriding description: all four override flags on.\<close>

definition camera1 :: ASceneCaptureCamera where
  "camera1 = (case Set description_override camera0 of Inr c \<Rightarrow> c | Inl e \<Rightarrow> camera0)"

text \<open>Two read-backs: one that fails, one that delivers a single pixel.\<close>

definition resource_failing :: FTextureRenderTargetResource where
  "resource_failing = \<lparr>ReadPixels_return = False, ReadPixels_OutImageData = []\<rparr>"

definition resource_ready :: FTextureRenderTargetResource where
  "resource_ready =
     \<lparr>ReadPixels_return = True, ReadPixels_OutImageData = [FColor 1 2 3 255]\<rparr>"

section \<open>The header bytes\<close>

lemma uint32_of_bytes_of_uint32: "uint32_of_bytes (bytes_of_uint32 w) = w"
  unfolding uint32_of_bytes_def bytes_of_uint32_def
proof (simp, rule bit_word_eqI)
  fix n :: nat
  assume n: "n < LENGTH(32)"
  consider "n < 8" | "8 \<le> n" "n < 16" | "16 \<le> n" "n < 24" | "24 \<le> n"
    by linarith
  then show "bit (ucast (ucast w :: uint8) OR push_bit 8 (ucast (ucast (drop_bit 8 w) :: uint8)) OR
                  push_bit 16 (ucast (ucast (drop_bit 16 w) :: uint8)) OR
                  push_bit 24 (ucast (ucast (drop_bit 24 w) :: uint8)) :: uint32) n = bit w n"
    using n by cases (auto simp add: bit_simps)
qed

lemma length_bytes_of_uint32: "length (bytes_of_uint32 w) = 4"
  by (simp add: bytes_of_uint32_def)

lemma length_bytes_of_ImageHeader: "length (bytes_of_ImageHeader h) = 16"
  by (simp add: bytes_of_ImageHeader_def length_bytes_of_uint32)

lemma slots_bytes_of_ImageHeader:
  "slot 0 (bytes_of_ImageHeader h) = Width h"
  "slot 1 (bytes_of_ImageHeader h) = Height h"
  "slot (Suc 0) (bytes_of_ImageHeader h) = Height h"
  "slot 2 (bytes_of_ImageHeader h) = Type h"
  "slot 3 (bytes_of_ImageHeader h) = FOV h"
  unfolding bytes_of_ImageHeader_def
  by (simp_all add: slot_def length_bytes_of_uint32 uint32_of_bytes_of_uint32)

section \<open>What each operation returns on a camera whose subobjects exist\<close>

lemma RemoveShowFlags_apply:
  "RemoveShowFlags flags flag = (flag \<notin> set removed_show_flags \<and> flags flag)"
proof -
  have "fold (\<lambda>flag. SetShowFlag flag False) xs flags flag = (flag \<notin> set xs \<and> flags flag)" for xs
    by (induction xs arbitrary: flags) (auto simp: SetShowFlag_def)
  then show ?thesis by (simp add: RemoveShowFlags_def)
qed

lemma Tick_failed_read:
  assumes "CaptureComponent2D c = Some capture" and "CaptureRenderTarget c = Some rt"
    and "RTResource = None \<or> (\<exists>r. RTResource = Some r \<and> \<not> ReadPixels_return r)"
  shows "Tick ToUInt GetId RTResource c = Inr []"
  using assms by (auto simp add: Tick_def ReadPixels_def)

lemma Tick_successful_read:
  assumes "CaptureComponent2D c = Some capture" and "CaptureRenderTarget c = Some rt"
    and "RTResource = Some r" and "ReadPixels_return r"
  shows "Tick ToUInt GetId RTResource c =
           Inr [\<lparr>SensorId = GetId,
                 Header = bytes_of_ImageHeader
                   \<lparr>Width = SizeX c, Height = SizeY c,
                    Type = ToUInt (ASceneCaptureCamera.PostProcessEffect c),
                    FOV = USceneCaptureComponent2D.FOVAngle capture\<rparr>,
                 Data = ReadPixels_OutImageData r\<rparr>]"
  using assms by (simp add: Tick_def ReadPixels_def)

lemma Tick_written_cases:
  assumes "Tick ToUInt GetId RTResource c = Inr written"
    and "CaptureComponent2D c = Some capture"
  shows "written = [] \<or>
         (\<exists>BitMap. written =
            [\<lparr>SensorId = GetId,
              Header = bytes_of_ImageHeader
                \<lparr>Width = SizeX c, Height = SizeY c,
                 Type = ToUInt (ASceneCaptureCamera.PostProcessEffect c),
                 FOV = USceneCaptureComponent2D.FOVAngle capture\<rparr>,
              Data = BitMap\<rparr>])"
  using assms
  by (auto simp add: Tick_def ReadPixels_def split: option.splits if_splits)

lemma Set_override_Inr:
  assumes "CaptureComponent2D c = Some capture"
  shows "\<exists>c1 k1. Set_override d c = Inr c1 \<and> CaptureComponent2D c1 = Some k1 \<and>
           CaptureRenderTarget c1 = CaptureRenderTarget c \<and>
           override_flags c1 =
             (if bOverrideCameraPostProcessParameters d then Some (True, True, True, True)
              else override_flags c)"
  using assms by (simp add: Set_override_def override_flags_def Let_def)

lemma SetPostProcessEffect_Inr:
  assumes "CaptureComponent2D c = Some capture"
  shows "\<exists>c1 k1. SetPostProcessEffect e c = Inr c1 \<and> CaptureComponent2D c1 = Some k1 \<and>
           CaptureRenderTarget c1 = CaptureRenderTarget c \<and>
           SizeX c1 = SizeX c \<and> SizeY c1 = SizeY c \<and>
           ASceneCaptureCamera.PostProcessEffect c1 = e \<and>
           USceneCaptureComponent2D.FOVAngle k1 = USceneCaptureComponent2D.FOVAngle capture \<and>
           override_flags c1 =
             (if e = SceneFinal then override_flags c else Some (False, False, False, False))"
  using assms by (simp add: SetPostProcessEffect_def override_flags_def)

lemma SetFOVAngle_Inr:
  assumes "CaptureComponent2D c = Some capture"
  shows "\<exists>c1 k1. SetFOVAngle angle c = Inr c1 \<and> CaptureComponent2D c1 = Some k1 \<and>
           CaptureRenderTarget c1 = CaptureRenderTarget c \<and>
           SizeX c1 = SizeX c \<and> SizeY c1 = SizeY c \<and>
           ASceneCaptureCamera.PostProcessEffect c1 = ASceneCaptureCamera.PostProcessEffect c \<and>
           USceneCaptureComponent2D.FOVAngle k1 = angle \<and>
           override_flags c1 = override_flags c"
  using assms by (simp add: SetFOVAngle_def override_flags_def)

lemma Set_Inr:
  assumes "CaptureComponent2D c = Some capture"
  shows "\<exists>c' capture'. Set d c = Inr c' \<and> CaptureComponent2D c' = Some capture' \<and>
           CaptureRenderTarget c' = CaptureRenderTarget c \<and>
           SizeX c' = ImageSizeX d \<and> SizeY c' = ImageSizeY d \<and>
           ASceneCaptureCamera.PostProcessEffect c' = UCameraDescription.PostProcessEffect d \<and>
           USceneCaptureComponent2D.FOVAngle capture' = UCameraDescription.FOVAngle d \<and>
           override_flags c' =
             (if UCameraDescription.PostProcessEffect d = SceneFinal
              then (if bOverrideCameraPostProcessParameters d then Some (True, True, True, True)
                    else override_flags c)
              else Some (False, False, False, False))"
proof -
  obtain c1 k1 where 1: "Set_override d c = Inr c1" "CaptureComponent2D c1 = Some k1"
      "CaptureRenderTarget c1 = CaptureRenderTarget c"
      "override_flags c1 =
         (if bOverrideCameraPostProcessParameters d then Some (True, True, True, True)
          else override_flags c)"
    using Set_override_Inr [OF assms, of d] by blast
  let ?c2 = "SetImageSize (ImageSizeX d) (ImageSizeY d) c1"
  have 2: "CaptureComponent2D ?c2 = Some k1" "CaptureRenderTarget ?c2 = CaptureRenderTarget c"
      "SizeX ?c2 = ImageSizeX d" "SizeY ?c2 = ImageSizeY d"
      "override_flags ?c2 = override_flags c1"
    using 1 by (simp_all add: SetImageSize_def override_flags_def)
  obtain c3 k3 where 3:
      "SetPostProcessEffect (UCameraDescription.PostProcessEffect d) ?c2 = Inr c3"
      "CaptureComponent2D c3 = Some k3" "CaptureRenderTarget c3 = CaptureRenderTarget ?c2"
      "SizeX c3 = SizeX ?c2" "SizeY c3 = SizeY ?c2"
      "ASceneCaptureCamera.PostProcessEffect c3 = UCameraDescription.PostProcessEffect d"
      "override_flags c3 =
         (if UCameraDescription.PostProcessEffect d = SceneFinal then override_flags ?c2
          else Some (False, False, False, False))"
    using SetPostProcessEffect_Inr [OF 2(1), of "UCameraDescription.PostProcessEffect d"] by blast
  obtain c4 k4 where 4:
      "SetFOVAngle (UCameraDescription.FOVAngle d) c3 = Inr c4"
      "CaptureComponent2D c4 = Some k4" "CaptureRenderTarget c4 = CaptureRenderTarget c3"
      "SizeX c4 = SizeX c3" "SizeY c4 = SizeY c3"
      "ASceneCaptureCamera.PostProcessEffect c4 = ASceneCaptureCamera.PostProcessEffect c3"
      "USceneCaptureComponent2D.FOVAngle k4 = UCameraDescription.FOVAngle d"
      "override_flags c4 = override_flags c3"
    using SetFOVAngle_Inr [OF 3(2), of "UCameraDescription.FOVAngle d"] by blast
  have "Set d c = Inr c4"
    using 1(1) 3(1) 4(1) by (simp add: Set_def)
  then show ?thesis
    using 1 2 3 4 by simp
qed

lemma BeginPlay_Inr:
  assumes "CaptureComponent2D c = Some capture" and "CaptureRenderTarget c = Some rt"
  shows "\<exists>c' capture' rt'. BeginPlay c = Inr c' \<and> CaptureComponent2D c' = Some capture' \<and>
           CaptureRenderTarget c' = Some rt' \<and>
           SizeX c' = SizeX c \<and> SizeY c' = SizeY c \<and>
           ASceneCaptureCamera.PostProcessEffect c' = ASceneCaptureCamera.PostProcessEffect c \<and>
           USceneCaptureComponent2D.FOVAngle capture' = USceneCaptureComponent2D.FOVAngle capture \<and>
           ShowFlags capture' =
             (if ASceneCaptureCamera.PostProcessEffect c = SceneFinal then ShowFlags capture
              else RemoveShowFlags (ShowFlags capture)) \<and>
           Blendables (PostProcessSettings capture') =
             Blendables (PostProcessSettings capture) @
             (if ASceneCaptureCamera.PostProcessEffect c = Depth
              then [(PostProcessDepth c, 0x3F800000)]
              else if ASceneCaptureCamera.PostProcessEffect c = SemanticSegmentation
              then [(PostProcessSemanticSegmentation c, 0x3F800000)]
              else [])"
  using assms by (simp add: BeginPlay_def Let_def AddBlendable_def)

section \<open>Failed read-back\<close>

text \<open>
  C1. On a tick whose read-back fails, because the render target has no resource or
  because the pixel read returns false, \<open>Tick\<close> makes no call to \<open>WriteSensorData\<close>,
  raises nothing, and its outcome is \<open>Skipped\<close>.
\<close>

theorem Tick_skips_when_read_back_fails:
  assumes "CaptureComponent2D c = Some capture" and "CaptureRenderTarget c = Some rt"
    and "RTResource = None \<or> (\<exists>r. RTResource = Some r \<and> \<not> ReadPixels_return r)"
  shows "Tick ToUInt GetId RTResource c = Inr [] \<and>
         map_sum id Outcome_of (Tick ToUInt GetId RTResource c) = Inr Skipped"
  using Tick_failed_read [OF assms] by (simp add: Outcome_of_def)

theorem Tick_skips_when_read_back_fails_witness:
  "CaptureComponent2D camera0 = Some component0 \<and>
   CaptureRenderTarget camera0 = Some (render_target0\<lparr>Name := ''CaptureRenderTarget0''\<rparr>) \<and>
   \<not> ReadPixels_return resource_failing \<and>
   Tick ToUInt_table 7 None camera0 = Inr [] \<and>
   map_sum id Outcome_of (Tick ToUInt_table 7 None camera0) = Inr Skipped \<and>
   Tick ToUInt_table 7 (Some resource_failing) camera0 = Inr [] \<and>
   map_sum id Outcome_of (Tick ToUInt_table 7 (Some resource_failing) camera0) = Inr Skipped"
proof -
  have k: "CaptureComponent2D camera0 = Some component0"
    and t: "CaptureRenderTarget camera0 = Some (render_target0\<lparr>Name := ''CaptureRenderTarget0''\<rparr>)"
    by (simp_all add: camera0_def ASceneCaptureCamera_ctor_def)
  have f: "\<not> ReadPixels_return resource_failing"
    by (simp add: resource_failing_def)
  have missing: "(None :: FTextureRenderTargetResource option) = None \<or>
      (\<exists>r. None = Some r \<and> \<not> ReadPixels_return r)"
    by simp
  have failed: "Some resource_failing = None \<or>
      (\<exists>r. Some resource_failing = Some r \<and> \<not> ReadPixels_return r)"
    using f by simp
  show ?thesis
    using k t f
      Tick_skips_when_read_back_fails [OF k t missing, of ToUInt_table 7]
      Tick_skips_when_read_back_fails [OF k t failed, of ToUInt_table 7]
    by blast
qed

section \<open>The configured size reaches the header\<close>

text \<open>
  C2. For every description with positive width and height: \<open>Set\<close>, then \<open>BeginPlay\<close>,
  then one tick whose read-back succeeds publishes one view, and the first two slots of
  its header are the description's width and height.
\<close>

theorem configured_size_reaches_header:
  assumes "CaptureComponent2D c = Some capture" and "CaptureRenderTarget c = Some rt"
    and "0 < ImageSizeX d" and "0 < ImageSizeY d"
    and "RTResource = Some r" and "ReadPixels_return r"
  shows "\<exists>c1 c2 dv. Set d c = Inr c1 \<and> BeginPlay c1 = Inr c2 \<and>
           Tick ToUInt GetId RTResource c2 = Inr [dv] \<and>
           slot 0 (Header dv) = ImageSizeX d \<and> slot 1 (Header dv) = ImageSizeY d"
proof -
  obtain c1 k1 where 1: "Set d c = Inr c1" "CaptureComponent2D c1 = Some k1"
      "CaptureRenderTarget c1 = Some rt" "SizeX c1 = ImageSizeX d" "SizeY c1 = ImageSizeY d"
    using Set_Inr [OF assms(1), of d] assms(2) by auto
  obtain c2 k2 rt2 where 2: "BeginPlay c1 = Inr c2" "CaptureComponent2D c2 = Some k2"
      "CaptureRenderTarget c2 = Some rt2" "SizeX c2 = SizeX c1" "SizeY c2 = SizeY c1"
    using BeginPlay_Inr [OF 1(2) 1(3)] by blast
  show ?thesis
    using 1 2 Tick_successful_read [OF 2(2) 2(3) assms(5) assms(6), of ToUInt GetId]
    by (simp add: slots_bytes_of_ImageHeader)
qed

theorem configured_size_reaches_header_witness:
  "CaptureComponent2D camera0 = Some component0 \<and>
   CaptureRenderTarget camera0 = Some (render_target0\<lparr>Name := ''CaptureRenderTarget0''\<rparr>) \<and>
   0 < ImageSizeX description_depth \<and> 0 < ImageSizeY description_depth \<and>
   ReadPixels_return resource_ready \<and>
   (\<exists>c1 c2 dv. Set description_depth camera0 = Inr c1 \<and> BeginPlay c1 = Inr c2 \<and>
      Tick ToUInt_table 7 (Some resource_ready) c2 = Inr [dv] \<and>
      slot 0 (Header dv) = 800 \<and> slot 1 (Header dv) = 600)"
proof -
  have k: "CaptureComponent2D camera0 = Some component0"
    and t: "CaptureRenderTarget camera0 = Some (render_target0\<lparr>Name := ''CaptureRenderTarget0''\<rparr>)"
    by (simp_all add: camera0_def ASceneCaptureCamera_ctor_def)
  have x: "0 < ImageSizeX description_depth" and y: "0 < ImageSizeY description_depth"
    by (simp_all add: description_depth_def)
  have r: "ReadPixels_return resource_ready"
    by (simp add: resource_ready_def)
  have sizes: "ImageSizeX description_depth = 800" "ImageSizeY description_depth = 600"
    by (simp_all add: description_depth_def)
  show ?thesis
    using k t x y r
      configured_size_reaches_header [OF k t x y refl r, of ToUInt_table 7]
    unfolding sizes by simp
qed

section \<open>Shape of the published header\<close>

text \<open>
  C3. Whatever the configuration, every view a tick publishes has a header of exactly 16
  bytes, made of four 32-bit slots: \<open>SizeX\<close>, \<open>SizeY\<close>, the code of the effect, and the
  bits of the component's field-of-view float.
\<close>

theorem Tick_header_layout:
  assumes "Tick ToUInt GetId RTResource c = Inr written"
    and "CaptureComponent2D c = Some capture"
  shows "\<forall>dv \<in> set written.
           length (Header dv) = 16 \<and>
           slot 0 (Header dv) = SizeX c \<and>
           slot 1 (Header dv) = SizeY c \<and>
           slot 2 (Header dv) = ToUInt (ASceneCaptureCamera.PostProcessEffect c) \<and>
           slot 3 (Header dv) = USceneCaptureComponent2D.FOVAngle capture"
  using Tick_written_cases [OF assms]
  by (auto simp add: length_bytes_of_ImageHeader slots_bytes_of_ImageHeader)

theorem Tick_header_layout_witness:
  "Tick ToUInt_table 7 (Some resource_ready) camera0 =
     Inr [\<lparr>SensorId = 7,
           Header = [0xD0, 0x02, 0, 0, 0, 0x02, 0, 0, 0, 0, 0, 0, 0, 0, 0xB4, 0x42],
           Data = [FColor 1 2 3 255]\<rparr>] \<and>
   CaptureComponent2D camera0 = Some component0 \<and>
   length [0xD0, 0x02, 0, 0, 0, 0x02, 0, 0, 0, 0, 0, 0, 0, 0, 0xB4, 0x42 :: uint8] = 16 \<and>
   slot 0 [0xD0, 0x02, 0, 0, 0, 0x02, 0, 0, 0, 0, 0, 0, 0, 0, 0xB4, 0x42] = 720 \<and>
   slot 1 [0xD0, 0x02, 0, 0, 0, 0x02, 0, 0, 0, 0, 0, 0, 0, 0, 0xB4, 0x42] = 512 \<and>
   slot 2 [0xD0, 0x02, 0, 0, 0, 0x02, 0, 0, 0, 0, 0, 0, 0, 0, 0xB4, 0x42] = 0 \<and>
   slot 3 [0xD0, 0x02, 0, 0, 0, 0x02, 0, 0, 0, 0, 0, 0, 0, 0, 0xB4, 0x42] = 0x42B40000"
proof -
  have k: "CaptureComponent2D camera0 = Some component0"
    by (simp add: camera0_def ASceneCaptureCamera_ctor_def)
  have run: "Tick ToUInt_table 7 (Some resource_ready) camera0 =
     Inr [\<lparr>SensorId = 7,
           Header = [0xD0, 0x02, 0, 0, 0, 0x02, 0, 0, 0, 0, 0, 0, 0, 0, 0xB4, 0x42],
           Data = [FColor 1 2 3 255]\<rparr>]"
    by (simp add: Tick_def ReadPixels_def camera0_def ASceneCaptureCamera_ctor_def
        resource_ready_def component0_def ToUInt_table_def bytes_of_ImageHeader_def
        bytes_of_uint32_def)
  have state: "SizeX camera0 = 720" "SizeY camera0 = 512"
      "ToUInt_table (ASceneCaptureCamera.PostProcessEffect camera0) = 0"
      "USceneCaptureComponent2D.FOVAngle component0 = 0x42B40000"
    by (simp_all add: camera0_def ASceneCaptureCamera_ctor_def ToUInt_table_def component0_def)
  show ?thesis
    using run k Tick_header_layout [OF run k] unfolding state by simp
qed

section \<open>Round trip of the header\<close>

text \<open>
  C8. Decoding the 16 bytes of an encoded header gives the header back, field by field,
  for every header; the field-of-view slot carries the float's bits unchanged.
\<close>

theorem decode_header_bytes_of_ImageHeader:
  "decode_header (bytes_of_ImageHeader h) = Some h \<and>
   length (bytes_of_ImageHeader h) = 16 \<and>
   map_option FOV (decode_header (bytes_of_ImageHeader h)) = Some (FOV h)"
  by (simp add: decode_header_def length_bytes_of_ImageHeader slots_bytes_of_ImageHeader)

theorem decode_header_bytes_of_ImageHeader_witness:
  "decode_header
     (bytes_of_ImageHeader \<lparr>Width = 720, Height = 512, Type = 0, FOV = 0x42B40000\<rparr>) =
   Some \<lparr>Width = 720, Height = 512, Type = 0, FOV = 0x42B40000\<rparr> \<and>
   bytes_of_ImageHeader \<lparr>Width = 720, Height = 512, Type = 0, FOV = 0x42B40000\<rparr> =
     [0xD0, 0x02, 0, 0, 0, 0x02, 0, 0, 0, 0, 0, 0, 0, 0, 0xB4, 0x42]"
  using decode_header_bytes_of_ImageHeader
    [of "\<lparr>Width = 720, Height = 512, Type = 0, FOV = 0x42B40000\<rparr>"]
  by (simp add: bytes_of_ImageHeader_def bytes_of_uint32_def)

section \<open>Show flags at session start\<close>

lemma camera0_subobjects:
  "CaptureComponent2D camera0 = Some component0"
  "CaptureRenderTarget camera0 = Some (render_target0\<lparr>Name := ''CaptureRenderTarget0''\<rparr>)"
  by (simp_all add: camera0_def ASceneCaptureCamera_ctor_def)

text \<open>
  C4, as stated, fails for the \<open>None\<close> effect: \<open>BeginPlay\<close> removes the show flags whenever
  the effect is not \<open>SceneFinal\<close>. On the constructed camera switched to \<open>None\<close>, the flag
  \<open>Bloom\<close> is on before \<open>BeginPlay\<close> and off after it.
\<close>

theorem BeginPlay_None_removes_show_flags:
  "ASceneCaptureCamera.PostProcessEffect
     (camera0\<lparr>ASceneCaptureCamera.PostProcessEffect := None_PPE\<rparr>) = None_PPE \<and>
   show_flag_of ''Bloom'' (camera0\<lparr>ASceneCaptureCamera.PostProcessEffect := None_PPE\<rparr>)
     = Some True \<and>
   map_sum id (show_flag_of ''Bloom'')
     (BeginPlay (camera0\<lparr>ASceneCaptureCamera.PostProcessEffect := None_PPE\<rparr>))
     = Inr (Some False)"
  by (simp add: show_flag_of_def BeginPlay_def Let_def camera0_def ASceneCaptureCamera_ctor_def
      component0_def RemoveShowFlags_apply removed_show_flags_def)

text \<open>
  C4, amended. With \<open>SceneFinal\<close>, \<open>BeginPlay\<close> leaves every show flag as it was. With
  \<open>None\<close> it switches off exactly the flags of \<open>RemoveShowFlags\<close> (a flag is on afterwards
  when it was on before and is not in that list) and blends no material.
\<close>

theorem BeginPlay_show_flags_SceneFinal_None:
  assumes "CaptureComponent2D c = Some capture" and "CaptureRenderTarget c = Some rt"
    and "ASceneCaptureCamera.PostProcessEffect c = SceneFinal \<or>
         ASceneCaptureCamera.PostProcessEffect c = None_PPE"
  shows "\<exists>c' capture'. BeginPlay c = Inr c' \<and> CaptureComponent2D c' = Some capture' \<and>
           Blendables (PostProcessSettings capture') = Blendables (PostProcessSettings capture) \<and>
           (\<forall>flag. ShowFlags capture' flag =
              (if ASceneCaptureCamera.PostProcessEffect c = SceneFinal
               then ShowFlags capture flag
               else flag \<notin> set removed_show_flags \<and> ShowFlags capture flag))"
proof -
  obtain c' capture' where 1: "BeginPlay c = Inr c'" "CaptureComponent2D c' = Some capture'"
      "ShowFlags capture' =
         (if ASceneCaptureCamera.PostProcessEffect c = SceneFinal then ShowFlags capture
          else RemoveShowFlags (ShowFlags capture))"
      "Blendables (PostProcessSettings capture') =
         Blendables (PostProcessSettings capture) @
         (if ASceneCaptureCamera.PostProcessEffect c = Depth
          then [(PostProcessDepth c, 0x3F800000)]
          else if ASceneCaptureCamera.PostProcessEffect c = SemanticSegmentation
          then [(PostProcessSemanticSegmentation c, 0x3F800000)]
          else [])"
    using BeginPlay_Inr [OF assms(1) assms(2)] by blast
  have "Blendables (PostProcessSettings capture') = Blendables (PostProcessSettings capture)"
    using 1(4) assms(3) by auto
  moreover have "ShowFlags capture' flag =
      (if ASceneCaptureCamera.PostProcessEffect c = SceneFinal then ShowFlags capture flag
       else flag \<notin> set removed_show_flags \<and> ShowFlags capture flag)" for flag
    using 1(3) by (simp add: RemoveShowFlags_apply)
  ultimately show ?thesis
    using 1(1) 1(2) by blast
qed

theorem BeginPlay_show_flags_SceneFinal_None_witness:
  "CaptureComponent2D camera0 = Some component0 \<and>
   CaptureRenderTarget camera0 = Some (render_target0\<lparr>Name := ''CaptureRenderTarget0''\<rparr>) \<and>
   ASceneCaptureCamera.PostProcessEffect camera0 = SceneFinal \<and>
   (\<exists>c' capture'. BeginPlay camera0 = Inr c' \<and> CaptureComponent2D c' = Some capture' \<and>
      Blendables (PostProcessSettings capture') = [] \<and>
      (\<forall>flag. ShowFlags capture' flag = True)) \<and>
   ASceneCaptureCamera.PostProcessEffect
     (camera0\<lparr>ASceneCaptureCamera.PostProcessEffect := None_PPE\<rparr>) = None_PPE \<and>
   (\<exists>c' capture'.
      BeginPlay (camera0\<lparr>ASceneCaptureCamera.PostProcessEffect := None_PPE\<rparr>) = Inr c' \<and>
      CaptureComponent2D c' = Some capture' \<and>
      Blendables (PostProcessSettings capture') = [] \<and>
      (\<forall>flag. ShowFlags capture' flag = (flag \<notin> set removed_show_flags)))"
proof -
  let ?n = "camera0\<lparr>ASceneCaptureCamera.PostProcessEffect := None_PPE\<rparr>"
  have kn: "CaptureComponent2D ?n = Some component0"
    and tn: "CaptureRenderTarget ?n = Some (render_target0\<lparr>Name := ''CaptureRenderTarget0''\<rparr>)"
    using camera0_subobjects by simp_all
  have en: "ASceneCaptureCamera.PostProcessEffect ?n = None_PPE"
    by simp
  have dn: "ASceneCaptureCamera.PostProcessEffect ?n = SceneFinal \<or>
            ASceneCaptureCamera.PostProcessEffect ?n = None_PPE"
    by simp
  have e: "ASceneCaptureCamera.PostProcessEffect camera0 = SceneFinal"
    by (simp add: camera0_def ASceneCaptureCamera_ctor_def)
  have d: "ASceneCaptureCamera.PostProcessEffect camera0 = SceneFinal \<or>
           ASceneCaptureCamera.PostProcessEffect camera0 = None_PPE"
    using e by simp
  have s: "Blendables (PostProcessSettings component0) = []" "ShowFlags component0 flag = True"
    for flag
    by (simp_all add: component0_def)
  show ?thesis
    using camera0_subobjects e en
      BeginPlay_show_flags_SceneFinal_None [OF camera0_subobjects d]
      BeginPlay_show_flags_SceneFinal_None [OF kn tn dn]
    by (simp add: s)
qed

section \<open>Depth and semantic segmentation\<close>

text \<open>
  C5. Started with \<open>Depth\<close> or with \<open>SemanticSegmentation\<close>, the same camera ends with the
  same show flags, those left by \<open>RemoveShowFlags\<close>; \<open>Depth\<close> adds one blendable, the
  depth material at weight \<open>1.0f\<close>, and \<open>SemanticSegmentation\<close> adds one, the segmentation
  material at weight \<open>1.0f\<close>.
\<close>

theorem BeginPlay_Depth_SemanticSegmentation:
  assumes "CaptureComponent2D c = Some capture" and "CaptureRenderTarget c = Some rt"
  shows "\<exists>cd kd cs ks.
           BeginPlay (c\<lparr>ASceneCaptureCamera.PostProcessEffect := Depth\<rparr>) = Inr cd \<and>
           CaptureComponent2D cd = Some kd \<and>
           BeginPlay (c\<lparr>ASceneCaptureCamera.PostProcessEffect := SemanticSegmentation\<rparr>) = Inr cs \<and>
           CaptureComponent2D cs = Some ks \<and>
           ShowFlags kd = ShowFlags ks \<and>
           ShowFlags kd = RemoveShowFlags (ShowFlags capture) \<and>
           Blendables (PostProcessSettings kd) =
             Blendables (PostProcessSettings capture) @ [(PostProcessDepth c, 0x3F800000)] \<and>
           Blendables (PostProcessSettings ks) =
             Blendables (PostProcessSettings capture) @
             [(PostProcessSemanticSegmentation c, 0x3F800000)]"
proof -
  let ?d = "c\<lparr>ASceneCaptureCamera.PostProcessEffect := Depth\<rparr>"
  let ?s = "c\<lparr>ASceneCaptureCamera.PostProcessEffect := SemanticSegmentation\<rparr>"
  have kd: "CaptureComponent2D ?d = Some capture" and td: "CaptureRenderTarget ?d = Some rt"
    and ks: "CaptureComponent2D ?s = Some capture" and ts: "CaptureRenderTarget ?s = Some rt"
    using assms by simp_all
  show ?thesis
    using BeginPlay_Inr [OF kd td] BeginPlay_Inr [OF ks ts] by auto
qed

theorem BeginPlay_Depth_SemanticSegmentation_witness:
  "CaptureComponent2D camera0 = Some component0 \<and>
   CaptureRenderTarget camera0 = Some (render_target0\<lparr>Name := ''CaptureRenderTarget0''\<rparr>) \<and>
   (\<exists>cd kd cs ks.
      BeginPlay (camera0\<lparr>ASceneCaptureCamera.PostProcessEffect := Depth\<rparr>) = Inr cd \<and>
      CaptureComponent2D cd = Some kd \<and>
      BeginPlay (camera0\<lparr>ASceneCaptureCamera.PostProcessEffect := SemanticSegmentation\<rparr>) = Inr cs \<and>
      CaptureComponent2D cs = Some ks \<and>
      ShowFlags kd = ShowFlags ks \<and>
      Blendables (PostProcessSettings kd) = [(DepthEffectMaterial_GLSL, 0x3F800000)] \<and>
      Blendables (PostProcessSettings ks) = [(GTMaterial, 0x3F800000)])"
proof -
  have s: "Blendables (PostProcessSettings component0) = []"
      "PostProcessDepth camera0 = DepthEffectMaterial_GLSL"
      "PostProcessSemanticSegmentation camera0 = GTMaterial"
    by (simp_all add: component0_def camera0_def ASceneCaptureCamera_ctor_def
        DEPTH_MAT_PATH_def SEMANTIC_SEGMENTATION_MAT_PATH_def)
  show ?thesis
    using camera0_subobjects BeginPlay_Depth_SemanticSegmentation [OF camera0_subobjects]
    unfolding s by auto
qed

section \<open>Auto-exposure overrides and the effect\<close>

lemma camera1_eq: "Set description_override camera0 = Inr camera1"
  using Set_Inr [OF camera0_subobjects(1), of description_override]
  by (auto simp add: camera1_def)

lemma camera1_state:
  "\<exists>capture. CaptureComponent2D camera1 = Some capture"
  "ASceneCaptureCamera.PostProcessEffect camera1 = SceneFinal"
  "override_flags camera1 = Some (True, True, True, True)"
  using Set_Inr [OF camera0_subobjects(1), of description_override] camera1_eq
  by (auto simp add: description_override_def)

text \<open>
  C6. From any state, \<open>SetPostProcessEffect\<close> with an effect other than \<open>SceneFinal\<close> leaves
  all four auto-exposure override flags off, and \<open>SetPostProcessEffect\<close> with \<open>SceneFinal\<close>
  after it leaves them off: the override comes back only when it is applied again.
\<close>

theorem SetPostProcessEffect_clears_override:
  assumes "CaptureComponent2D c = Some capture" and "e \<noteq> SceneFinal"
  shows "\<exists>c1 c2. SetPostProcessEffect e c = Inr c1 \<and>
           override_flags c1 = Some (False, False, False, False) \<and>
           SetPostProcessEffect SceneFinal c1 = Inr c2 \<and>
           ASceneCaptureCamera.PostProcessEffect c2 = SceneFinal \<and>
           override_flags c2 = Some (False, False, False, False)"
proof -
  obtain c1 k1 where 1: "SetPostProcessEffect e c = Inr c1" "CaptureComponent2D c1 = Some k1"
      "override_flags c1 = Some (False, False, False, False)"
    using SetPostProcessEffect_Inr [OF assms(1), of e] assms(2) by auto
  obtain c2 where 2: "SetPostProcessEffect SceneFinal c1 = Inr c2"
      "ASceneCaptureCamera.PostProcessEffect c2 = SceneFinal"
      "override_flags c2 = override_flags c1"
    using SetPostProcessEffect_Inr [OF 1(2), of SceneFinal] by auto
  show ?thesis
    using 1 2 by simp
qed

theorem SetPostProcessEffect_clears_override_witness:
  "(\<exists>capture. CaptureComponent2D camera1 = Some capture) \<and> Depth \<noteq> SceneFinal \<and>
   ASceneCaptureCamera.PostProcessEffect camera1 = SceneFinal \<and>
   override_flags camera1 = Some (True, True, True, True) \<and>
   (\<exists>c1 c2. SetPostProcessEffect Depth camera1 = Inr c1 \<and>
      override_flags c1 = Some (False, False, False, False) \<and>
      SetPostProcessEffect SceneFinal c1 = Inr c2 \<and>
      ASceneCaptureCamera.PostProcessEffect c2 = SceneFinal \<and>
      override_flags c2 = Some (False, False, False, False))"
proof -
  obtain capture where k: "CaptureComponent2D camera1 = Some capture"
    using camera1_state(1) by blast
  have e: "Depth \<noteq> SceneFinal"
    by simp
  show ?thesis
    using k e camera1_state(2) camera1_state(3)
      SetPostProcessEffect_clears_override [OF k e]
    by blast
qed

text \<open>
  C10, as stated, fails: the flags can be on after \<open>Set\<close> although the description's
  override boolean is off. \<open>Set\<close> with the overriding scene-final description switches
  them on; \<open>Set\<close> with the same description without the override then leaves them on.
\<close>

theorem Set_keeps_earlier_override:
  "Set description_override camera0 = Inr camera1 \<and>
   \<not> bOverrideCameraPostProcessParameters description_plain \<and>
   UCameraDescription.PostProcessEffect description_plain = SceneFinal \<and>
   map_sum id override_flags (Set description_plain camera1)
     = Inr (Some (True, True, True, True))"
proof -
  obtain capture where k: "CaptureComponent2D camera1 = Some capture"
    using camera1_state(1) by blast
  show ?thesis
    using camera1_eq camera1_state(3) Set_Inr [OF k, of description_plain]
    by (auto simp add: description_plain_def)
qed

text \<open>
  C10, amended. After \<open>Set\<close>: with an effect other than \<open>SceneFinal\<close> all four override
  flags are off, also when the description's override boolean is on (the effect is set
  after the override block); with \<open>SceneFinal\<close> and the boolean on, all four are on; with
  \<open>SceneFinal\<close> and the boolean off, the flags are what they were before the call.
\<close>

theorem Set_override_flags:
  assumes "CaptureComponent2D c = Some capture"
  shows "\<exists>c'. Set d c = Inr c' \<and>
           override_flags c' =
             (if UCameraDescription.PostProcessEffect d = SceneFinal
              then (if bOverrideCameraPostProcessParameters d then Some (True, True, True, True)
                    else override_flags c)
              else Some (False, False, False, False))"
  using Set_Inr [OF assms, of d] by blast

theorem Set_override_flags_witness:
  "CaptureComponent2D camera0 = Some component0 \<and>
   bOverrideCameraPostProcessParameters description_depth_override \<and>
   UCameraDescription.PostProcessEffect description_depth_override = Depth \<and>
   (\<exists>c'. Set description_depth_override camera0 = Inr c' \<and>
      override_flags c' = Some (False, False, False, False)) \<and>
   (\<exists>c'. Set description_override camera0 = Inr c' \<and>
      override_flags c' = Some (True, True, True, True))"
proof -
  have d: "bOverrideCameraPostProcessParameters description_depth_override"
      "UCameraDescription.PostProcessEffect description_depth_override = Depth"
      "bOverrideCameraPostProcessParameters description_override"
      "UCameraDescription.PostProcessEffect description_override = SceneFinal"
    by (simp_all add: description_depth_override_def description_override_def)
  show ?thesis
    using camera0_subobjects(1) d(1) d(2)
      Set_override_flags [OF camera0_subobjects(1), of description_depth_override]
      Set_override_flags [OF camera0_subobjects(1), of description_override]
    by (simp add: d)
qed

section \<open>Descriptions are not validated\<close>

text \<open>
  C7, as stated, fails: \<open>Set\<close> rejects nothing. The description with zero width, zero
  height and a field of view of \<open>0.0f\<close> is applied to the constructed camera, whose size
  goes from 720 x 512 to 0 x 0 and whose field of view from \<open>90.0f\<close> to \<open>0.0f\<close>.
\<close>

theorem Set_applies_zero_description:
  "ImageSizeX description_zero = 0 \<and> ImageSizeY description_zero = 0 \<and>
   UCameraDescription.FOVAngle description_zero = 0 \<and>
   SizeX camera0 = 720 \<and> SizeY camera0 = 512 \<and> GetFOVAngle camera0 = Inr 0x42B40000 \<and>
   map_sum id SizeX (Set description_zero camera0) = Inr 0 \<and>
   map_sum id SizeY (Set description_zero camera0) = Inr 0 \<and>
   map_sum id GetFOVAngle (Set description_zero camera0) = Inr (Inr 0)"
proof -
  have before: "SizeX camera0 = 720" "SizeY camera0 = 512" "GetFOVAngle camera0 = Inr 0x42B40000"
    by (simp_all add: camera0_def ASceneCaptureCamera_ctor_def GetFOVAngle_def component0_def)
  have d: "ImageSizeX description_zero = 0" "ImageSizeY description_zero = 0"
      "UCameraDescription.FOVAngle description_zero = 0"
    by (simp_all add: description_zero_def)
  show ?thesis
    using before Set_Inr [OF camera0_subobjects(1), of description_zero]
    unfolding d by (auto simp add: GetFOVAngle_def)
qed

text \<open>
  C7, amended. \<open>Set\<close> does not validate: on a camera whose capture component exists it
  succeeds for every description and stores the description's width, height, effect and
  field of view, whatever their values; there is no invalid-configuration error.
\<close>

theorem Set_applies_every_description:
  assumes "CaptureComponent2D c = Some capture"
  shows "\<exists>c' capture'. Set d c = Inr c' \<and> CaptureComponent2D c' = Some capture' \<and>
           SizeX c' = ImageSizeX d \<and> SizeY c' = ImageSizeY d \<and>
           ASceneCaptureCamera.PostProcessEffect c' = UCameraDescription.PostProcessEffect d \<and>
           USceneCaptureComponent2D.FOVAngle capture' = UCameraDescription.FOVAngle d"
  using Set_Inr [OF assms, of d] by blast

theorem Set_applies_every_description_witness:
  "CaptureComponent2D camera0 = Some component0 \<and>
   (\<exists>c' capture'. Set description_depth camera0 = Inr c' \<and>
      CaptureComponent2D c' = Some capture' \<and>
      SizeX c' = 800 \<and> SizeY c' = 600 \<and>
      ASceneCaptureCamera.PostProcessEffect c' = Depth \<and>
      USceneCaptureComponent2D.FOVAngle capture' = 0x42B40000)"
proof -
  have d: "ImageSizeX description_depth = 800" "ImageSizeY description_depth = 600"
      "UCameraDescription.PostProcessEffect description_depth = Depth"
      "UCameraDescription.FOVAngle description_depth = 0x42B40000"
    by (simp_all add: description_depth_def)
  show ?thesis
    using camera0_subobjects(1)
      Set_applies_every_description [OF camera0_subobjects(1), of description_depth]
    unfolding d by simp
qed

section \<open>The field of view before session start\<close>

text \<open>
  C9, as stated, fails: the check in \<open>GetFOVAngle\<close> and \<open>SetFOVAngle\<close> is on the component
  pointer, which the constructor sets. On the constructed camera, on which \<open>BeginPlay\<close>
  has not run (its render target has had no \<open>InitCustomFormat\<close>), \<open>GetFOVAngle\<close> returns
  \<open>90.0f\<close> and \<open>SetFOVAngle\<close> of \<open>60.0f\<close> (\<open>0x42700000\<close>) takes effect.
\<close>

theorem FOVAngle_before_BeginPlay:
  "map_option CustomFormat (CaptureRenderTarget camera0) = Some None \<and>
   GetFOVAngle camera0 = Inr 0x42B40000 \<and>
   map_sum id GetFOVAngle (SetFOVAngle 0x42700000 camera0) = Inr (Inr 0x42700000)"
  by (simp add: camera0_def ASceneCaptureCamera_ctor_def render_target0_def component0_def
      GetFOVAngle_def SetFOVAngle_def)

text \<open>
  C9, amended. \<open>GetFOVAngle\<close> and \<open>SetFOVAngle\<close> fail, by the assertion, exactly when the
  capture-component pointer is null, whether or not \<open>BeginPlay\<close> has run; the constructor
  sets the pointer, so on a constructed camera \<open>GetFOVAngle\<close> returns the component's
  angle and \<open>SetFOVAngle\<close> stores the new one.
\<close>

theorem FOVAngle_check:
  "(GetFOVAngle c = Inl Check_failed) = (CaptureComponent2D c = None) \<and>
   (SetFOVAngle angle c = Inl Check_failed) = (CaptureComponent2D c = None) \<and>
   GetFOVAngle (ASceneCaptureCamera_ctor p comp0 rt0) =
     Inr (USceneCaptureComponent2D.FOVAngle comp0) \<and>
   map_sum id GetFOVAngle (SetFOVAngle angle (ASceneCaptureCamera_ctor p comp0 rt0)) =
     Inr (Inr angle)"
  by (simp add: GetFOVAngle_def SetFOVAngle_def ASceneCaptureCamera_ctor_def
      split: option.split)

theorem FOVAngle_check_witness:
  "(GetFOVAngle (camera0\<lparr>CaptureComponent2D := None\<rparr>) = Inl Check_failed) \<and>
   (SetFOVAngle 0x42700000 (camera0\<lparr>CaptureComponent2D := None\<rparr>) = Inl Check_failed) \<and>
   GetFOVAngle (ASceneCaptureCamera_ctor PLATFORM_WINDOWS component0 render_target0) =
     Inr 0x42B40000"
  using FOVAngle_check [of "camera0\<lparr>CaptureComponent2D := None\<rparr>" "0x42700000"
      PLATFORM_WINDOWS component0 render_target0]
  by (simp add: component0_def)

end
